theory Spec2Isabelle
  imports Main "HOL-Library.Sublist"
begin

section \<open>Data model of \<^verbatim>\<open>src/index.js\<close>\<close>

text \<open>
  The bot is one module of asynchronous functions over a Probot \<^verbatim>\<open>context\<close>. A
  context carries the decoded webhook payload and \<^verbatim>\<open>context.octokit\<close>, the client of
  the GitHub REST interface. The model keeps both: the payload is a record, and
  the client is a record of the outcome of each request, so that every theorem
  holds for every behaviour of the platform.

  The fields of the payload that the code reads:
  \<^item> \<^verbatim>\<open>payload.comment\<close>, absent on \<^verbatim>\<open>pull_request.opened\<close> and
    \<^verbatim>\<open>pull_request_review.submitted\<close>; its \<^verbatim>\<open>body\<close> (which may be null) and
    \<^verbatim>\<open>user.login\<close>;
  \<^item> \<^verbatim>\<open>payload.issue\<close>, absent on the two pull-request events; its \<^verbatim>\<open>number\<close>;
  \<^item> \<^verbatim>\<open>payload.repository.owner.login\<close>.
  Every request addresses the repository of the payload (\<^verbatim>\<open>context.repo\<close>,
  \<^verbatim>\<open>context.issue\<close>), so the owner and the name of the repository are left
  implicit in the requests.
\<close>

record webhook_comment =
  comment_body :: "string option"
  comment_user_login :: string

record payload =
  payload_comment :: "webhook_comment option"
  payload_issue_number :: "int option"
  repository_owner_login :: string

text \<open>The elements of the lists that the platform returns.\<close>

record issue_comment =
  user_login :: string
  body :: string

record review =
  review_user_login :: string
  review_state :: string

text \<open>\<^verbatim>\<open>pr.data\<close>: the draft flag and the names of the labels, in order.\<close>

record pull_request =
  draft :: bool
  labels :: "string list"

text \<open>
  What a JavaScript \<^verbatim>\<open>throw\<close> carries here: the \<^verbatim>\<open>TypeError\<close> of a property
  read on \<^verbatim>\<open>undefined\<close>, or the error of a rejected request. Both have a
  \<^verbatim>\<open>message\<close>.
\<close>

datatype exn = TypeError string | RequestError string

fun message :: "exn \<Rightarrow> string" where
  "message (TypeError m) = m"
| "message (RequestError m) = m"

text \<open>
  Everything a run does that is visible from outside, in order: the requests it
  sends (whether or not they succeed) and the lines it logs. The first argument
  of a request on an issue is \<^verbatim>\<open>issue_number\<close>, of a request on a pull request
  \<^verbatim>\<open>pull_number\<close>.
\<close>

datatype effect =
    ConsoleLog string
  | ConsoleLogCollaborators "string list"
  | LogInfo string
  | LogError string
  | ListCollaborators string
  | ListComments int
  | CreateComment "int option" string
  | AddLabels int "string list"
  | RemoveLabel int string
  | PullsGet int
  | ListReviews int
  | CreateReview int string string
  | Merge int

text \<open>
  The client. A read returns \<open>Inr\<close> of its data or \<open>Inl\<close> of the message of the
  error it rejects with; a write returns \<open>None\<close> when it succeeds and \<open>Some\<close> of
  the message otherwise. One run sends each request at most once with the same
  arguments, so a function of the arguments describes any platform.
\<close>

record octokit =
  repos_listCollaborators :: "string \<Rightarrow> string + string list"
  issues_listComments :: "int \<Rightarrow> string + issue_comment list"
  issues_createComment :: "int option \<Rightarrow> string \<Rightarrow> string option"
  issues_addLabels :: "int \<Rightarrow> string list \<Rightarrow> string option"
  issues_removeLabel :: "int \<Rightarrow> string \<Rightarrow> string option"
  pulls_get :: "int \<Rightarrow> string + pull_request"
  pulls_listReviews :: "int \<Rightarrow> string + review list"
  pulls_createReview :: "int \<Rightarrow> string \<Rightarrow> string \<Rightarrow> string option"
  pulls_merge :: "int \<Rightarrow> string option"

text \<open>
  An asynchronous function returns the effects it had and either the exception
  its promise rejects with (\<open>Inl\<close>) or its value (\<open>Inr\<close>).
\<close>

type_synonym 'a async = "effect list \<times> (exn + 'a)"

definition await :: "'a async \<Rightarrow> ('a \<Rightarrow> 'b async) \<Rightarrow> 'b async" where
  "await m k =
     (case m of
        (es, Inl e) \<Rightarrow> (es, Inl e)
      | (es, Inr a) \<Rightarrow> (case k a of (es', r) \<Rightarrow> (es @ es', r)))"

definition try_catch :: "'a async \<Rightarrow> (exn \<Rightarrow> 'a async) \<Rightarrow> 'a async" where
  "try_catch m h =
     (case m of
        (es, Inl e) \<Rightarrow> (case h e of (es', r) \<Rightarrow> (es @ es', r))
      | (es, Inr a) \<Rightarrow> (es, Inr a))"

definition request :: "effect \<Rightarrow> string + 'a \<Rightarrow> 'a async" where
  "request call outcome =
     ([call], case outcome of Inl m \<Rightarrow> Inl (RequestError m) | Inr a \<Rightarrow> Inr a)"

definition command :: "effect \<Rightarrow> string option \<Rightarrow> unit async" where
  "command call outcome =
     ([call], case outcome of Some m \<Rightarrow> Inl (RequestError m) | None \<Rightarrow> Inr ())"

definition log :: "effect \<Rightarrow> unit async" where
  "log line = ([line], Inr ())"

definition return :: "'a \<Rightarrow> 'a async" where
  "return a = ([], Inr a)"

definition throw :: "exn \<Rightarrow> 'a async" where
  "throw e = ([], Inl e)"

text \<open>
  \<^verbatim>\<open>try { m } catch (error) { h; return; }\<close> followed by the rest \<open>k\<close> of the
  function: the rest runs only when \<open>m\<close> did not throw.
\<close>

definition try_catch_return ::
  "unit async \<Rightarrow> (exn \<Rightarrow> 'a async) \<Rightarrow> (unit \<Rightarrow> 'a async) \<Rightarrow> 'a async" where
  "try_catch_return m h k =
     (case m of
        (es, Inl e) \<Rightarrow> (case h e of (es', r) \<Rightarrow> (es @ es', r))
      | (es, Inr a) \<Rightarrow> (case k a of (es', r) \<Rightarrow> (es @ es', r)))"

section \<open>Strings\<close>

text \<open>
  The two emoji of the comment templates, as their UTF-8 bytes, and the decimal
  text that a template literal gives an integer.
\<close>

definition cross_mark :: string where
  "cross_mark = [char_of (0xE2 :: nat), char_of (0x9D :: nat), char_of (0x8C :: nat)]"

definition check_mark :: string where
  "check_mark = [char_of (0xE2 :: nat), char_of (0x9C :: nat), char_of (0x85 :: nat)]"

fun digits :: "nat \<Rightarrow> string" where
  "digits n =
     (if n < 10 then [''0123456789'' ! n]
      else digits (n div 10) @ [''0123456789'' ! (n mod 10)])"

definition number_text :: "int \<Rightarrow> string" where
  "number_text i = (if i < 0 then CHR ''-'' # digits (nat (- i)) else digits (nat i))"

section \<open>The functions of \<^verbatim>\<open>src/index.js\<close>\<close>

definition MIN_REQUIRED_APPROVALS :: nat where
  "MIN_REQUIRED_APPROVALS = 1"

definition botUsername :: string where
  "botUsername = ''kubefirst-bot[bot]''"

text \<open>
  \<^verbatim>\<open>context.octokit.issues.createComment(context.issue({ body }))\<close>: the issue
  number is the one of the payload.
\<close>

definition createComment :: "octokit \<Rightarrow> payload \<Rightarrow> string \<Rightarrow> unit async" where
  "createComment ok p text =
     command (CreateComment (payload_issue_number p) text)
       (issues_createComment ok (payload_issue_number p) text)"

text \<open>
  \<^verbatim>\<open>Array.prototype.some\<close> with a callback that also reads the index.
\<close>

definition some_idx :: "('a \<Rightarrow> nat \<Rightarrow> bool) \<Rightarrow> 'a list \<Rightarrow> bool" where
  "some_idx f xs = list_ex (\<lambda>(idx, x). f x idx) (enumerate 0 xs)"

text \<open>
  \<^verbatim>\<open>checkDuplicateCommand\<close> (lines 87 to 107). The whole body is inside
  \<^verbatim>\<open>try\<close>, the read of \<^verbatim>\<open>context.payload.issue.number\<close> included. The last
  index \<^verbatim>\<open>comments.length - 1\<close> is \<open>-1\<close> for an empty list, hence the comparison
  in \<open>int\<close>.
\<close>

definition checkDuplicateCommand :: "octokit \<Rightarrow> payload \<Rightarrow> string \<Rightarrow> string \<Rightarrow> bool async" where
  "checkDuplicateCommand ok p commenter commentBody =
     try_catch
       (await
          (case payload_issue_number p of
             None \<Rightarrow> throw (TypeError ''Cannot read properties of undefined (reading 'number')'')
           | Some n \<Rightarrow> request (ListComments n) (issues_listComments ok n))
          (\<lambda>comments.
             return (some_idx (\<lambda>comment idx.
                       user_login comment = commenter \<and>
                       body comment = commentBody \<and>
                       int idx \<noteq> int (length comments) - 1) comments)))
       (\<lambda>error.
          await (log (LogError (''Failed to check for duplicate command usage: '' @ message error)))
            (\<lambda>_. return False))"

text \<open>
  \<^verbatim>\<open>checkMaintainerOrBot\<close> (lines 211 to 232). It prints the name, answers at
  once for the bot and for the owner, and otherwise asks for the direct
  collaborators.
\<close>

definition checkMaintainerOrBot :: "octokit \<Rightarrow> payload \<Rightarrow> string \<Rightarrow> bool async" where
  "checkMaintainerOrBot ok p username =
     await (log (ConsoleLog username)) (\<lambda>_.
       try_catch
         (let ownerusername = repository_owner_login p in
          if username = botUsername \<or> username = ownerusername then return True
          else
            await (request (ListCollaborators ''direct'') (repos_listCollaborators ok ''direct''))
              (\<lambda>collaborators.
            await (log (ConsoleLogCollaborators collaborators)) (\<lambda>_.
              return (list_ex (\<lambda>collaborator. collaborator = username) collaborators))))
         (\<lambda>error.
            await (log (LogError (''Failed to check maintainer status: '' @ message error)))
              (\<lambda>_. return False)))"

text \<open>
  The approval count of lines 177 to 180: the reviews of the list fetched at
  the start whose state is \<^verbatim>\<open>APPROVED\<close>, plus one.
\<close>

definition approvedReviews :: "review list \<Rightarrow> review list" where
  "approvedReviews reviews = filter (\<lambda>review. review_state review = ''APPROVED'') reviews"

definition approvalCount :: "review list \<Rightarrow> nat" where
  "approvalCount reviews = length (approvedReviews reviews) + 1"

text \<open>
  \<^verbatim>\<open>approvePR\<close> (lines 115 to 204). The two fetches stand outside any
  \<^verbatim>\<open>try\<close>; the review and the merge are each in one. The \<^verbatim>\<open>try\<close> of the merge
  also holds the confirmation comment, so a failure of that comment is caught
  and reported as a failed merge.
\<close>

definition approvePR :: "octokit \<Rightarrow> payload \<Rightarrow> int \<Rightarrow> string \<Rightarrow> unit async" where
  "approvePR ok p prNumber commenter =
     await (request (PullsGet prNumber) (pulls_get ok prNumber)) (\<lambda>pr.
     await (request (ListReviews prNumber) (pulls_listReviews ok prNumber)) (\<lambda>reviews.
       let isHeld = list_ex (\<lambda>label. label = ''hold'') (labels pr) in
       if isHeld then
         createComment ok p ''This PR is on hold and cannot be merged until the hold is removed.''
       else if draft pr then
         createComment ok p
           (''This PR is a draft and cannot be approved. '' @
            ''Please mark it as ready for review before approving.'')
       else
         let hasAlreadyApproved =
               list_ex (\<lambda>review. review_user_login review = commenter \<and>
                                  review_state review = ''APPROVED'') reviews in
         if hasAlreadyApproved then
           createComment ok p (''@'' @ commenter @ '', you have already approved this PR.'')
         else
           try_catch_return
             (await
                (command (CreateReview prNumber ''APPROVE'' ''Approved via /approve command.'')
                   (pulls_createReview ok prNumber ''APPROVE'' ''Approved via /approve command.''))
                (\<lambda>_. log (LogInfo (''Approval review created for PR #'' @
                          number_text prNumber @ '' via /approve command.''))))
             (\<lambda>error.
                createComment ok p
                  (cross_mark @ '' Failed to create an approval review: '' @ message error))
             (\<lambda>_.
                if approvalCount reviews \<ge> MIN_REQUIRED_APPROVALS then
                  try_catch
                    (await (command (Merge prNumber) (pulls_merge ok prNumber)) (\<lambda>_.
                       createComment ok p
                         (check_mark @ '' PR #'' @ number_text prNumber @
                          '' has met the required approvals and has been merged automatically.'')))
                    (\<lambda>error.
                       createComment ok p
                         (cross_mark @ '' Failed to merge the pull request: '' @ message error))
                else
                  createComment ok p
                    (''This PR requires at least '' @ number_text (int MIN_REQUIRED_APPROVALS) @
                     '' approvals before it can be merged. Current approvals: '' @
                     number_text (int (approvalCount reviews)) @ ''.''))))"

text \<open>\<^verbatim>\<open>holdPR\<close> (lines 239 to 247): no \<^verbatim>\<open>try\<close>.\<close>

definition holdPR :: "octokit \<Rightarrow> payload \<Rightarrow> int \<Rightarrow> unit async" where
  "holdPR ok p prNumber =
     await (command (AddLabels prNumber [''hold'']) (issues_addLabels ok prNumber [''hold'']))
       (\<lambda>_. log (LogInfo (''PR #'' @ number_text prNumber @ '' has been placed on hold.'')))"

text \<open>\<^verbatim>\<open>unholdPR\<close> (lines 254 to 266): the request and the log line are in a \<^verbatim>\<open>try\<close>.\<close>

definition unholdPR :: "octokit \<Rightarrow> payload \<Rightarrow> int \<Rightarrow> unit async" where
  "unholdPR ok p prNumber =
     try_catch
       (await (command (RemoveLabel prNumber ''hold'') (issues_removeLabel ok prNumber ''hold''))
          (\<lambda>_. log (LogInfo (''PR #'' @ number_text prNumber @
                  '' has been unheld and is ready for approval.''))))
       (\<lambda>error. log (LogError (''Failed to remove 'hold' label from PR #'' @
                  number_text prNumber @ '': '' @ message error)))"

text \<open>
  Lines 66 to 77 of \<^verbatim>\<open>handlePRCommands\<close>: three \<^verbatim>\<open>if\<close> statements in a row, each
  awaiting its handler.
\<close>

definition executeCommand :: "octokit \<Rightarrow> payload \<Rightarrow> int \<Rightarrow> string \<Rightarrow> string \<Rightarrow> unit async" where
  "executeCommand ok p prNumber commenter commentBody =
     await (if commentBody = ''/approve'' then approvePR ok p prNumber commenter else return ())
       (\<lambda>_.
     await (if commentBody = ''/hold'' then holdPR ok p prNumber else return ()) (\<lambda>_.
       if commentBody = ''/unhold'' then unholdPR ok p prNumber else return ()))"

text \<open>
  \<^verbatim>\<open>handlePRCommands\<close> (lines 28 to 78). Line 33 reads
  \<^verbatim>\<open>context.payload.comment.user.login\<close> before the test of line 35, and throws
  when the payload has no comment. \<^verbatim>\<open>!commentBody\<close> holds for null and for the
  empty string, \<^verbatim>\<open>!prNumber\<close> for null (no \<^verbatim>\<open>payload.issue\<close>) and for 0.
\<close>

definition handlePRCommands :: "octokit \<Rightarrow> payload \<Rightarrow> unit async" where
  "handlePRCommands ok p =
     (let commentBody =
            (case payload_comment p of
               Some c \<Rightarrow> (case comment_body c of Some b \<Rightarrow> b | None \<Rightarrow> '''')
             | None \<Rightarrow> '''')
      in
      case payload_comment p of
        None \<Rightarrow> throw (TypeError ''Cannot read properties of undefined (reading 'user')'')
      | Some c \<Rightarrow>
          let commenter = comment_user_login c in
          (case payload_issue_number p of
             None \<Rightarrow> return ()
           | Some prNumber \<Rightarrow>
               if commentBody = '''' \<or> prNumber = 0 then return ()
               else if commenter = botUsername then
                 log (LogInfo ''Ignoring comment from the bot itself to prevent infinite loop.'')
               else
                 await (checkMaintainerOrBot ok p commenter) (\<lambda>isMaintainer.
                   if \<not> isMaintainer then
                     createComment ok p
                       (cross_mark @ '' @'' @ commenter @
                        '', you do not have permission to use this command. '' @
                        ''Only maintainers and the bot can use this command.'')
                   else
                     await (checkDuplicateCommand ok p commenter commentBody)
                       (\<lambda>isDuplicateCommand.
                          if isDuplicateCommand then
                            createComment ok p
                              (''@'' @ commenter @
                               '', you have already used this command in the thread.'')
                          else executeCommand ok p prNumber commenter commentBody))))"

section \<open>Observations on a run\<close>

text \<open>
  The requests that change the platform: a comment, a label added or removed, a
  review, a merge.
\<close>

fun mutation :: "effect \<Rightarrow> bool" where
  "mutation (CreateComment _ _) = True"
| "mutation (AddLabels _ _) = True"
| "mutation (RemoveLabel _ _) = True"
| "mutation (CreateReview _ _ _) = True"
| "mutation (Merge _) = True"
| "mutation _ = False"

text \<open>
  The requests that only the three handlers send. \<^verbatim>\<open>approvePR\<close> starts with
  \<^verbatim>\<open>pulls.get\<close>, \<^verbatim>\<open>holdPR\<close> with \<^verbatim>\<open>addLabels\<close> and \<^verbatim>\<open>unholdPR\<close> with
  \<^verbatim>\<open>removeLabel\<close>, so a run without any of them ran no handler.
\<close>

fun handler_request :: "effect \<Rightarrow> bool" where
  "handler_request (PullsGet _) = True"
| "handler_request (ListReviews _) = True"
| "handler_request (CreateReview _ _ _) = True"
| "handler_request (Merge _) = True"
| "handler_request (AddLabels _ _) = True"
| "handler_request (RemoveLabel _ _) = True"
| "handler_request _ = False"

text \<open>
  The approval count as the specification words it: the number of distinct
  actors with an \<^verbatim>\<open>APPROVED\<close> review in the fetched list, plus one. It is
  compared with \<open>approvalCount\<close>, which is what the code computes.
\<close>

definition spec_approvalCount :: "review list \<Rightarrow> nat" where
  "spec_approvalCount reviews =
     card (set (map review_user_login
                 (filter (\<lambda>review. review_state review = ''APPROVED'') reviews))) + 1"

subsection \<open>Concrete inputs\<close>

text \<open>
  A platform on which every request succeeds: \<open>bob\<close> is the one direct
  collaborator, the pull request is ready and has no label and no review, and
  the thread is the argument.
\<close>

definition quiet_platform :: "issue_comment list \<Rightarrow> octokit" where
  "quiet_platform thread =
     \<lparr> repos_listCollaborators = (\<lambda>_. Inr [''bob'']),
       issues_listComments = (\<lambda>_. Inr thread),
       issues_createComment = (\<lambda>_ _. None),
       issues_addLabels = (\<lambda>_ _. None),
       issues_removeLabel = (\<lambda>_ _. None),
       pulls_get = (\<lambda>_. Inr \<lparr>draft = False, labels = []\<rparr>),
       pulls_listReviews = (\<lambda>_. Inr []),
       pulls_createReview = (\<lambda>_ _ _. None),
       pulls_merge = (\<lambda>_. None) \<rparr>"

text \<open>
  The payload of \<^verbatim>\<open>issue_comment.created\<close> on pull request 7 of a repository of
  \<open>alice\<close>.
\<close>

definition comment_event :: "string \<Rightarrow> string \<Rightarrow> payload" where
  "comment_event login text =
     \<lparr> payload_comment = Some \<lparr>comment_body = Some text, comment_user_login = login\<rparr>,
       payload_issue_number = Some 7,
       repository_owner_login = ''alice'' \<rparr>"

section \<open>Stepping through a run\<close>

lemma await_Inr: "await (es, Inr a) k = (es @ fst (k a), snd (k a))"
  by (simp add: await_def case_prod_beta)

lemma await_Inl: "await (es, Inl e) k = (es, Inl e)"
  by (simp add: await_def)

lemma try_catch_Inr: "try_catch (es, Inr a) h = (es, Inr a)"
  by (simp add: try_catch_def)

lemma try_catch_Inl: "try_catch (es, Inl e) h = (es @ fst (h e), snd (h e))"
  by (simp add: try_catch_def case_prod_beta)

lemma try_catch_return_Inr: "try_catch_return (es, Inr a) h k = (es @ fst (k a), snd (k a))"
  by (simp add: try_catch_return_def case_prod_beta)

lemma try_catch_return_Inl: "try_catch_return (es, Inl e) h k = (es @ fst (h e), snd (h e))"
  by (simp add: try_catch_return_def case_prod_beta)

lemmas step_simps = await_Inr await_Inl try_catch_Inr try_catch_Inl try_catch_return_Inr
  try_catch_return_Inl request_def command_def log_def return_def throw_def createComment_def

text \<open>Everything needed to run the handlers on a concrete input.\<close>

lemmas run_defs = handlePRCommands_def checkMaintainerOrBot_def checkDuplicateCommand_def
  executeCommand_def approvePR_def holdPR_def unholdPR_def step_simps some_idx_def
  approvalCount_def approvedReviews_def MIN_REQUIRED_APPROVALS_def botUsername_def
  number_text_def Let_def enumerate_eq_zip quiet_platform_def comment_event_def

lemma some_idx_iff: "some_idx f xs \<longleftrightarrow> (\<exists>i < length xs. f (xs ! i) i)"
  unfolding some_idx_def list_ex_iff
  by (auto simp: in_set_enumerate_eq)

subsection \<open>The two checks\<close>

text \<open>Both checks catch everything: they always return a boolean.\<close>

lemma checkDuplicateCommand_total:
  "\<exists>es b. checkDuplicateCommand ok p commenter commentBody = (es, Inr b)"
  by (auto simp: checkDuplicateCommand_def step_simps split: option.splits sum.splits)

lemma checkMaintainerOrBot_total:
  "\<exists>es b. checkMaintainerOrBot ok p username = (es, Inr b)"
  by (auto simp: checkMaintainerOrBot_def step_simps Let_def split: sum.splits)

text \<open>Neither of them writes to the platform.\<close>

lemma checkMaintainerOrBot_quiet:
  "e \<in> set (fst (checkMaintainerOrBot ok p username)) \<Longrightarrow> \<not> mutation e \<and> \<not> handler_request e"
  by (auto simp: checkMaintainerOrBot_def step_simps Let_def split: sum.splits if_splits)

lemma checkDuplicateCommand_quiet:
  "e \<in> set (fst (checkDuplicateCommand ok p commenter commentBody)) \<Longrightarrow>
     \<not> mutation e \<and> \<not> handler_request e"
  by (auto simp: checkDuplicateCommand_def step_simps split: option.splits sum.splits)

lemma quiet_filter:
  assumes "\<And>e. e \<in> set es \<Longrightarrow> \<not> mutation e \<and> \<not> handler_request e"
  shows "filter mutation es = []"
  using assms by (induction es) auto

subsection \<open>The dispatch\<close>

lemma executeCommand_other:
  assumes "b \<noteq> ''/approve''" "b \<noteq> ''/hold''" "b \<noteq> ''/unhold''"
  shows "executeCommand ok p n commenter b = ([], Inr ())"
  using assms by (simp add: executeCommand_def step_simps)

lemma executeCommand_approve:
  "executeCommand ok p n u ''/approve'' = approvePR ok p n u"
  by (cases "approvePR ok p n u" rule: prod.exhaust)
     (auto simp: executeCommand_def await_def return_def split: sum.splits)

lemma executeCommand_hold:
  "executeCommand ok p n u ''/hold'' = holdPR ok p n"
  by (cases "holdPR ok p n" rule: prod.exhaust)
     (auto simp: executeCommand_def await_def return_def split: sum.splits)

lemma executeCommand_unhold:
  "executeCommand ok p n u ''/unhold'' = unholdPR ok p n"
  by (simp add: executeCommand_def await_def return_def split: prod.splits)

text \<open>
  A comment with a text, on an issue with a number, by someone other than the
  bot: the run is the two checks and then what they decide.
\<close>

lemma handlePRCommands_checked:
  assumes "payload_comment p = Some c" and "comment_body c = Some b" and "b \<noteq> []"
    and "payload_issue_number p = Some n" and "n \<noteq> 0"
    and "comment_user_login c \<noteq> botUsername"
    and "checkMaintainerOrBot ok p (comment_user_login c) = (es1, Inr isMaintainer)"
    and "checkDuplicateCommand ok p (comment_user_login c) b = (es2, Inr isDuplicateCommand)"
  shows "handlePRCommands ok p =
           (if \<not> isMaintainer then
              (es1 @ fst (createComment ok p
                     (cross_mark @ '' @'' @ comment_user_login c @
                      '', you do not have permission to use this command. '' @
                      ''Only maintainers and the bot can use this command.'')),
               snd (createComment ok p
                     (cross_mark @ '' @'' @ comment_user_login c @
                      '', you do not have permission to use this command. '' @
                      ''Only maintainers and the bot can use this command.'')))
            else if isDuplicateCommand then
              (es1 @ es2 @ fst (createComment ok p
                     (''@'' @ comment_user_login c @
                      '', you have already used this command in the thread.'')),
               snd (createComment ok p
                     (''@'' @ comment_user_login c @
                      '', you have already used this command in the thread.'')))
            else
              (es1 @ es2 @ fst (executeCommand ok p n (comment_user_login c) b),
               snd (executeCommand ok p n (comment_user_login c) b)))"
  using assms by (simp add: handlePRCommands_def await_def split: prod.splits)

subsection \<open>The approve handler\<close>

lemma approvePR_unfetched:
  "pulls_get ok n = Inl m \<Longrightarrow> approvePR ok p n u = ([PullsGet n], Inl (RequestError m))"
  "pulls_get ok n = Inr pr \<Longrightarrow> pulls_listReviews ok n = Inl m \<Longrightarrow>
     approvePR ok p n u = ([PullsGet n, ListReviews n], Inl (RequestError m))"
  by (simp_all add: approvePR_def step_simps)

lemma approvePR_fetched:
  assumes "pulls_get ok n = Inr pr" and "pulls_listReviews ok n = Inr rs"
  shows "approvePR ok p n u =
     (let rest =
        (if ''hold'' \<in> set (labels pr) then
           createComment ok p ''This PR is on hold and cannot be merged until the hold is removed.''
         else if draft pr then
           createComment ok p
             (''This PR is a draft and cannot be approved. '' @
              ''Please mark it as ready for review before approving.'')
         else if \<exists>r \<in> set rs. review_user_login r = u \<and> review_state r = ''APPROVED'' then
           createComment ok p (''@'' @ u @ '', you have already approved this PR.'')
         else
           try_catch_return
             (await
                (command (CreateReview n ''APPROVE'' ''Approved via /approve command.'')
                   (pulls_createReview ok n ''APPROVE'' ''Approved via /approve command.''))
                (\<lambda>_. log (LogInfo (''Approval review created for PR #'' @
                          number_text n @ '' via /approve command.''))))
             (\<lambda>error.
                createComment ok p
                  (cross_mark @ '' Failed to create an approval review: '' @ message error))
             (\<lambda>_.
                  try_catch
                    (await (command (Merge n) (pulls_merge ok n)) (\<lambda>_.
                       createComment ok p
                         (check_mark @ '' PR #'' @ number_text n @
                          '' has met the required approvals and has been merged automatically.'')))
                    (\<lambda>error.
                       createComment ok p
                         (cross_mark @ '' Failed to merge the pull request: '' @ message error))))
      in (PullsGet n # ListReviews n # fst rest, snd rest))"
  using assms
  by (auto simp: approvePR_def await_Inr request_def Let_def list_ex_iff
      approvalCount_def MIN_REQUIRED_APPROVALS_def)

section \<open>Comments that are not a command\<close>

text \<open>
  Claim C1 says that a comment whose text is not exactly \<^verbatim>\<open>/approve\<close>,
  \<^verbatim>\<open>/hold\<close> or \<^verbatim>\<open>/unhold\<close> runs no handler and changes nothing on the
  platform. The text is compared with the three commands on lines 67 to 77
  only, after the permission check and the duplicate check of lines 45 to 64
  have each had the chance to post their notice, and both notices speak of
  \<^verbatim>\<open>this command\<close>. So the ordinary comment \<open>LGTM\<close> on pull request 7 is
  answered: by the permission notice when \<open>mallory\<close> writes it, who is neither
  the owner nor a collaborator, and by the duplicate notice when the
  collaborator \<open>bob\<close> writes it a second time. The platform accepts both
  comments.
\<close>

theorem non_command_denial_comment:
  "''LGTM'' \<noteq> ''/approve'' \<and> ''LGTM'' \<noteq> ''/hold'' \<and> ''LGTM'' \<noteq> ''/unhold'' \<and>
   handlePRCommands (quiet_platform [\<lparr>user_login = ''mallory'', body = ''LGTM''\<rparr>])
       (comment_event ''mallory'' ''LGTM'') =
     ([ConsoleLog ''mallory'', ListCollaborators ''direct'', ConsoleLogCollaborators [''bob''],
       CreateComment (Some 7)
         (cross_mark @ '' @mallory, you do not have permission to use this command. '' @
          ''Only maintainers and the bot can use this command.'')],
      Inr ()) \<and>
   handlePRCommands (quiet_platform [\<lparr>user_login = ''bob'', body = ''LGTM''\<rparr>,
                                     \<lparr>user_login = ''bob'', body = ''LGTM''\<rparr>])
       (comment_event ''bob'' ''LGTM'') =
     ([ConsoleLog ''bob'', ListCollaborators ''direct'', ConsoleLogCollaborators [''bob''],
       ListComments 7,
       CreateComment (Some 7) ''@bob, you have already used this command in the thread.''],
      Inr ())"
  by (simp add: run_defs)

section \<open>Payloads without a comment\<close>

text \<open>
  Claim C2 says that an event without a comment body or without a pull-request
  number makes the handler halt with no side effect and no error. The handler
  is registered for \<^verbatim>\<open>pull_request.opened\<close> and
  \<^verbatim>\<open>pull_request_review.submitted\<close>, whose payloads have no \<^verbatim>\<open>comment\<close>. Line 29
  guards the read of the body, line 33 reads \<^verbatim>\<open>comment.user.login\<close> unguarded,
  before the test of line 35: on every such payload the handler throws.
\<close>

theorem missing_comment_throws:
  "handlePRCommands ok
     \<lparr>payload_comment = None, payload_issue_number = i, repository_owner_login = owner\<rparr> =
     ([], Inl (TypeError ''Cannot read properties of undefined (reading 'user')''))"
  by (simp add: handlePRCommands_def throw_def)

section \<open>The approve scenario\<close>

text \<open>
  Claim C3. The threshold is 1. The comment is \<^verbatim>\<open>/approve\<close>, the permission check
  answers yes and the duplicate check answers no; the pull request is not a
  draft and has no \<^verbatim>\<open>hold\<close> label, the fetched list has no \<^verbatim>\<open>APPROVED\<close> review,
  and the platform accepts the review, the merge and the comment. Then the
  approval count is 1, and after the two checks the run is: the two fetches, one
  approval review, the log line, the merge, and the confirmation comment that
  names the number of the pull request. Its writes are exactly these three.
\<close>

theorem approve_scenario_threshold_one:
  assumes "payload_comment p = Some c" and "comment_body c = Some ''/approve''"
    and "payload_issue_number p = Some n" and "n \<noteq> 0"
    and "comment_user_login c \<noteq> botUsername"
    and "checkMaintainerOrBot ok p (comment_user_login c) = (es1, Inr True)"
    and "checkDuplicateCommand ok p (comment_user_login c) ''/approve'' = (es2, Inr False)"
    and "pulls_get ok n = Inr pr" and "\<not> draft pr" and "''hold'' \<notin> set (labels pr)"
    and "pulls_listReviews ok n = Inr rs" and "\<forall>r \<in> set rs. review_state r \<noteq> ''APPROVED''"
    and "pulls_createReview ok n ''APPROVE'' ''Approved via /approve command.'' = None"
    and "pulls_merge ok n = None"
    and "issues_createComment ok (Some n)
           (check_mark @ '' PR #'' @ number_text n @
            '' has met the required approvals and has been merged automatically.'') = None"
  shows "MIN_REQUIRED_APPROVALS = 1 \<and> approvalCount rs = 1 \<and>
         handlePRCommands ok p =
           (es1 @ es2 @
            [PullsGet n, ListReviews n,
             CreateReview n ''APPROVE'' ''Approved via /approve command.'',
             LogInfo (''Approval review created for PR #'' @ number_text n @
                      '' via /approve command.''),
             Merge n,
             CreateComment (Some n)
               (check_mark @ '' PR #'' @ number_text n @
                '' has met the required approvals and has been merged automatically.'')],
            Inr ()) \<and>
         filter mutation (fst (handlePRCommands ok p)) =
           [CreateReview n ''APPROVE'' ''Approved via /approve command.'',
            Merge n,
            CreateComment (Some n)
               (check_mark @ '' PR #'' @ number_text n @
                '' has met the required approvals and has been merged automatically.'')]"
proof -
  have count: "approvalCount rs = 1"
    using assms(12) by (simp add: approvalCount_def approvedReviews_def filter_empty_conv)
  have approve: "approvePR ok p n (comment_user_login c) =
           ([PullsGet n, ListReviews n,
             CreateReview n ''APPROVE'' ''Approved via /approve command.'',
             LogInfo (''Approval review created for PR #'' @ number_text n @
                      '' via /approve command.''),
             Merge n,
             CreateComment (Some n)
               (check_mark @ '' PR #'' @ number_text n @
                '' has met the required approvals and has been merged automatically.'')],
            Inr ())"
    using assms(3,9,10,12,13,14,15)
    by (simp add: approvePR_fetched [OF assms(8,11)] step_simps)
  have run: "handlePRCommands ok p =
           (es1 @ es2 @ fst (approvePR ok p n (comment_user_login c)),
            snd (approvePR ok p n (comment_user_login c)))"
    using handlePRCommands_checked [OF assms(1,2) _ assms(3,4,5,6,7)]
    by (simp add: executeCommand_approve)
  have q1: "filter mutation es1 = []"
    using checkMaintainerOrBot_quiet [of _ ok p "comment_user_login c"] assms(6)
    by (intro quiet_filter) simp
  have q2: "filter mutation es2 = []"
    using checkDuplicateCommand_quiet [of _ ok p "comment_user_login c" "''/approve''"] assms(7)
    by (intro quiet_filter) simp
  show ?thesis
    by (simp add: MIN_REQUIRED_APPROVALS_def count run approve q1 q2)
qed

text \<open>The scenario for the collaborator \<open>bob\<close> on pull request 7.\<close>

theorem approve_scenario_threshold_one_witness:
  "handlePRCommands (quiet_platform [\<lparr>user_login = ''bob'', body = ''/approve''\<rparr>])
       (comment_event ''bob'' ''/approve'') =
     ([ConsoleLog ''bob'', ListCollaborators ''direct'', ConsoleLogCollaborators [''bob''],
       ListComments 7, PullsGet 7, ListReviews 7,
       CreateReview 7 ''APPROVE'' ''Approved via /approve command.'',
       LogInfo ''Approval review created for PR #7 via /approve command.'',
       Merge 7,
       CreateComment (Some 7)
         (check_mark @
          '' PR #7 has met the required approvals and has been merged automatically.'')],
      Inr ())"
proof -
  let ?ok = "quiet_platform [\<lparr>user_login = ''bob'', body = ''/approve''\<rparr>]"
  let ?p = "comment_event ''bob'' ''/approve''"
  let ?c = "\<lparr>comment_body = Some ''/approve'', comment_user_login = ''bob''\<rparr>"
  have h1: "payload_comment ?p = Some ?c" by (simp add: comment_event_def)
  have h2: "comment_body ?c = Some ''/approve''" by simp
  have h3: "payload_issue_number ?p = Some 7" by (simp add: comment_event_def)
  have h4: "(7::int) \<noteq> 0" by simp
  have h5: "comment_user_login ?c \<noteq> botUsername" by (simp add: botUsername_def)
  have h6: "checkMaintainerOrBot ?ok ?p (comment_user_login ?c) =
      ([ConsoleLog ''bob'', ListCollaborators ''direct'', ConsoleLogCollaborators [''bob'']],
       Inr True)"
    by (simp add: run_defs)
  have h7: "checkDuplicateCommand ?ok ?p (comment_user_login ?c) ''/approve'' =
      ([ListComments 7], Inr False)"
    by (simp add: run_defs)
  have h8: "pulls_get ?ok 7 = Inr \<lparr>draft = False, labels = []\<rparr>"
    by (simp add: quiet_platform_def)
  have h9: "\<not> draft \<lparr>draft = False, labels = []\<rparr>" by simp
  have h10: "''hold'' \<notin> set (labels \<lparr>draft = False, labels = []\<rparr>)" by simp
  have h11: "pulls_listReviews ?ok 7 = Inr []" by (simp add: quiet_platform_def)
  have h12: "\<forall>r \<in> set ([] :: review list). review_state r \<noteq> ''APPROVED''" by simp
  have h13: "pulls_createReview ?ok 7 ''APPROVE'' ''Approved via /approve command.'' = None"
    by (simp add: quiet_platform_def)
  have h14: "pulls_merge ?ok 7 = None" by (simp add: quiet_platform_def)
  have h15: "issues_createComment ?ok (Some 7)
           (check_mark @ '' PR #'' @ number_text 7 @
            '' has met the required approvals and has been merged automatically.'') = None"
    by (simp add: quiet_platform_def)
  from approve_scenario_threshold_one [OF h1 h2 h3 h4 h5 h6 h7 h8 h9 h10 h11 h12 h13 h14 h15]
  show ?thesis by (simp add: number_text_def)
qed

section \<open>The approval count\<close>

text \<open>
  Claim C4, as amended. Lines 177 to 180 filter the fetched list by state and
  take the length; nothing groups the reviews by actor. The count that decides
  the merge is the number of
  reviews of the fetched list whose state is \<^verbatim>\<open>APPROVED\<close>, one per review, plus
  one for the review just created. It is never below the count of the distinct
  actors with such a review plus one, and it equals that count exactly when no
  actor has two \<^verbatim>\<open>APPROVED\<close> reviews in the list.
\<close>

theorem approval_count_per_review:
  "approvalCount reviews =
     card {i. i < length reviews \<and> review_state (reviews ! i) = ''APPROVED''} + 1 \<and>
   spec_approvalCount reviews \<le> approvalCount reviews \<and>
   (approvalCount reviews = spec_approvalCount reviews \<longleftrightarrow>
      distinct (map review_user_login (approvedReviews reviews)))"
proof -
  let ?as = "map review_user_login (approvedReviews reviews)"
  have len: "approvalCount reviews = length ?as + 1"
    by (simp add: approvalCount_def)
  have spec: "spec_approvalCount reviews = card (set ?as) + 1"
    by (simp add: spec_approvalCount_def approvedReviews_def)
  have "card (set ?as) \<le> length ?as" by (rule card_length)
  moreover have "card (set ?as) = length ?as \<longleftrightarrow> distinct ?as"
    by (metis card_distinct distinct_card)
  ultimately show ?thesis
    using len spec
    by (auto simp: approvalCount_def approvedReviews_def length_filter_conv_card)
qed

text \<open>Two approvals by two actors and a comment by a third: both counts are 3.\<close>

theorem approval_count_per_review_witness:
  "approvalCount
     [\<lparr>review_user_login = ''carol'', review_state = ''APPROVED''\<rparr>,
      \<lparr>review_user_login = ''dave'', review_state = ''APPROVED''\<rparr>,
      \<lparr>review_user_login = ''erin'', review_state = ''COMMENTED''\<rparr>] = 3 \<and>
   spec_approvalCount
     [\<lparr>review_user_login = ''carol'', review_state = ''APPROVED''\<rparr>,
      \<lparr>review_user_login = ''dave'', review_state = ''APPROVED''\<rparr>,
      \<lparr>review_user_login = ''erin'', review_state = ''COMMENTED''\<rparr>] = 3"
  using approval_count_per_review
    [of "[\<lparr>review_user_login = ''carol'', review_state = ''APPROVED''\<rparr>,
          \<lparr>review_user_login = ''dave'', review_state = ''APPROVED''\<rparr>,
          \<lparr>review_user_login = ''erin'', review_state = ''COMMENTED''\<rparr>]"]
  by (simp add: approvedReviews_def approvalCount_def)

text \<open>
  Claim C4 as stated fails: \<open>carol\<close> approved twice, so one distinct actor has an
  \<^verbatim>\<open>APPROVED\<close> review and the claim gives 2, while the code counts 3.
\<close>

theorem approval_count_repeated_actor:
  "approvalCount [\<lparr>review_user_login = ''carol'', review_state = ''APPROVED''\<rparr>,
                  \<lparr>review_user_login = ''carol'', review_state = ''APPROVED''\<rparr>] = 3 \<and>
   spec_approvalCount [\<lparr>review_user_login = ''carol'', review_state = ''APPROVED''\<rparr>,
                  \<lparr>review_user_login = ''carol'', review_state = ''APPROVED''\<rparr>] = 2"
  by (simp add: approvalCount_def approvedReviews_def spec_approvalCount_def)

section \<open>Requests outside any \<^verbatim>\<open>try\<close>\<close>

text \<open>
  Claim C5 says that no error escapes: every request that can fail is wrapped,
  and in particular the hold handler and the two fetches of the approve handler
  never throw to the caller. \<^verbatim>\<open>unholdPR\<close> and the two checks wrap their
  requests; \<^verbatim>\<open>holdPR\<close> and the fetches of \<^verbatim>\<open>approvePR\<close> do not. Here the
  collaborator \<open>bob\<close> comments \<^verbatim>\<open>/hold\<close> and the platform rejects the label, then
  comments \<^verbatim>\<open>/approve\<close> and the platform rejects the first, then the second
  fetch: each time the promise of \<^verbatim>\<open>handlePRCommands\<close> rejects with that error.
\<close>

theorem unwrapped_requests_propagate:
  "handlePRCommands
       ((quiet_platform [\<lparr>user_login = ''bob'', body = ''/hold''\<rparr>])
          \<lparr>issues_addLabels := (\<lambda>_ _. Some ''Not Found'')\<rparr>)
       (comment_event ''bob'' ''/hold'') =
     ([ConsoleLog ''bob'', ListCollaborators ''direct'', ConsoleLogCollaborators [''bob''],
       ListComments 7, AddLabels 7 [''hold'']],
      Inl (RequestError ''Not Found'')) \<and>
   handlePRCommands
       ((quiet_platform [\<lparr>user_login = ''bob'', body = ''/approve''\<rparr>])
          \<lparr>pulls_get := (\<lambda>_. Inl ''Bad Gateway'')\<rparr>)
       (comment_event ''bob'' ''/approve'') =
     ([ConsoleLog ''bob'', ListCollaborators ''direct'', ConsoleLogCollaborators [''bob''],
       ListComments 7, PullsGet 7],
      Inl (RequestError ''Bad Gateway'')) \<and>
   handlePRCommands
       ((quiet_platform [\<lparr>user_login = ''bob'', body = ''/approve''\<rparr>])
          \<lparr>pulls_listReviews := (\<lambda>_. Inl ''Bad Gateway'')\<rparr>)
       (comment_event ''bob'' ''/approve'') =
     ([ConsoleLog ''bob'', ListCollaborators ''direct'', ConsoleLogCollaborators [''bob''],
       ListComments 7, PullsGet 7, ListReviews 7],
      Inl (RequestError ''Bad Gateway''))"
  by (simp add: run_defs)

section \<open>The preconditions of an approval\<close>

text \<open>
  Claim C6. Once the pull request is fetched: if it carries the \<^verbatim>\<open>hold\<close> label,
  no run of the approve handler sends a review, whatever else the platform
  answers. Once the reviews are fetched too, the handler tests the label, then
  the draft flag, then an \<^verbatim>\<open>APPROVED\<close> review by the commenter; at the first test
  that fails it posts the comment of that test and stops, with the outcome of
  that comment as its own.
\<close>

theorem approve_preconditions_in_order:
  assumes "pulls_get ok n = Inr pr"
  shows "(\<forall>e \<in> set (fst (approvePR ok p n u)).
            ''hold'' \<in> set (labels pr) \<longrightarrow> (\<forall>a b c. e \<noteq> CreateReview a b c)) \<and>
         (\<forall>rs. pulls_listReviews ok n = Inr rs \<longrightarrow>
            (''hold'' \<in> set (labels pr) \<longrightarrow>
               approvePR ok p n u =
                 ([PullsGet n, ListReviews n,
                   CreateComment (payload_issue_number p)
                     ''This PR is on hold and cannot be merged until the hold is removed.''],
                  snd (createComment ok p
                     ''This PR is on hold and cannot be merged until the hold is removed.''))) \<and>
            (''hold'' \<notin> set (labels pr) \<and> draft pr \<longrightarrow>
               approvePR ok p n u =
                 ([PullsGet n, ListReviews n,
                   CreateComment (payload_issue_number p)
                     (''This PR is a draft and cannot be approved. '' @
                      ''Please mark it as ready for review before approving.'')],
                  snd (createComment ok p
                     (''This PR is a draft and cannot be approved. '' @
                      ''Please mark it as ready for review before approving.'')))) \<and>
            (''hold'' \<notin> set (labels pr) \<and> \<not> draft pr \<and>
             (\<exists>r \<in> set rs. review_user_login r = u \<and> review_state r = ''APPROVED'') \<longrightarrow>
               approvePR ok p n u =
                 ([PullsGet n, ListReviews n,
                   CreateComment (payload_issue_number p)
                     (''@'' @ u @ '', you have already approved this PR.'')],
                  snd (createComment ok p (''@'' @ u @ '', you have already approved this PR.'')))))"
proof (intro conjI allI impI ballI)
  fix e a b c
  assume e: "e \<in> set (fst (approvePR ok p n u))" and held: "''hold'' \<in> set (labels pr)"
  show "e \<noteq> CreateReview a b c"
  proof (cases "pulls_listReviews ok n")
    case (Inl m)
    with assms e show ?thesis
      by (auto simp: approvePR_unfetched)
  next
    case (Inr rs)
    with assms e held show ?thesis
      by (auto simp: approvePR_fetched createComment_def command_def)
  qed
qed (simp_all add: assms approvePR_fetched createComment_def command_def)

text \<open>
  \<open>bob\<close> has approved before. On a draft that is on hold the answer is the one
  of the first test; on a draft without the label, the one of the second; on a
  ready pull request without the label, the one of the third. Each time the
  comment is the only write.
\<close>

theorem approve_preconditions_in_order_witness:
  "approvePR
     ((quiet_platform [])
        \<lparr>pulls_get := (\<lambda>_. Inr \<lparr>draft = True, labels = [''bug'', ''hold'']\<rparr>),
         pulls_listReviews :=
           (\<lambda>_. Inr [\<lparr>review_user_login = ''bob'', review_state = ''APPROVED''\<rparr>])\<rparr>)
     (comment_event ''bob'' ''/approve'') 7 ''bob'' =
     ([PullsGet 7, ListReviews 7,
       CreateComment (Some 7)
         ''This PR is on hold and cannot be merged until the hold is removed.''],
      Inr ()) \<and>
   approvePR
     ((quiet_platform [])
        \<lparr>pulls_get := (\<lambda>_. Inr \<lparr>draft = True, labels = [''bug'']\<rparr>),
         pulls_listReviews :=
           (\<lambda>_. Inr [\<lparr>review_user_login = ''bob'', review_state = ''APPROVED''\<rparr>])\<rparr>)
     (comment_event ''bob'' ''/approve'') 7 ''bob'' =
     ([PullsGet 7, ListReviews 7,
       CreateComment (Some 7)
         (''This PR is a draft and cannot be approved. '' @
          ''Please mark it as ready for review before approving.'')],
      Inr ()) \<and>
   approvePR
     ((quiet_platform [])
        \<lparr>pulls_listReviews :=
           (\<lambda>_. Inr [\<lparr>review_user_login = ''bob'', review_state = ''APPROVED''\<rparr>])\<rparr>)
     (comment_event ''bob'' ''/approve'') 7 ''bob'' =
     ([PullsGet 7, ListReviews 7,
       CreateComment (Some 7) ''@bob, you have already approved this PR.''],
      Inr ())"
proof -
  let ?rs = "[\<lparr>review_user_login = ''bob'', review_state = ''APPROVED''\<rparr>]"
  let ?held = "(quiet_platform [])
        \<lparr>pulls_get := (\<lambda>_. Inr \<lparr>draft = True, labels = [''bug'', ''hold'']\<rparr>),
         pulls_listReviews := (\<lambda>_. Inr ?rs)\<rparr>"
  let ?draft = "(quiet_platform [])
        \<lparr>pulls_get := (\<lambda>_. Inr \<lparr>draft = True, labels = [''bug'']\<rparr>),
         pulls_listReviews := (\<lambda>_. Inr ?rs)\<rparr>"
  let ?approved = "(quiet_platform []) \<lparr>pulls_listReviews := (\<lambda>_. Inr ?rs)\<rparr>"
  let ?p = "comment_event ''bob'' ''/approve''"
  have h1: "pulls_get ?held 7 = Inr \<lparr>draft = True, labels = [''bug'', ''hold'']\<rparr>"
    by simp
  have h2: "pulls_get ?draft 7 = Inr \<lparr>draft = True, labels = [''bug'']\<rparr>"
    by simp
  have h3: "pulls_get ?approved 7 = Inr \<lparr>draft = False, labels = []\<rparr>"
    by (simp add: quiet_platform_def)
  have first: "approvePR ?held ?p 7 ''bob'' =
     ([PullsGet 7, ListReviews 7,
       CreateComment (Some 7)
         ''This PR is on hold and cannot be merged until the hold is removed.''],
      Inr ())"
    using approve_preconditions_in_order [OF h1, of ?p "''bob''"]
    by (simp add: quiet_platform_def comment_event_def createComment_def command_def)
  have second: "approvePR ?draft ?p 7 ''bob'' =
     ([PullsGet 7, ListReviews 7,
       CreateComment (Some 7)
         (''This PR is a draft and cannot be approved. '' @
          ''Please mark it as ready for review before approving.'')],
      Inr ())"
    using approve_preconditions_in_order [OF h2, of ?p "''bob''"]
    by (simp add: quiet_platform_def comment_event_def createComment_def command_def)
  have third: "approvePR ?approved ?p 7 ''bob'' =
     ([PullsGet 7, ListReviews 7,
       CreateComment (Some 7) ''@bob, you have already approved this PR.''],
      Inr ())"
    using approve_preconditions_in_order [OF h3, of ?p "''bob''"]
    by (simp add: quiet_platform_def comment_event_def createComment_def command_def)
  from first second third show ?thesis by blast
qed

section \<open>A failed read in each check\<close>

text \<open>
  Claim C7. The payload has a comment with a text, an issue number, and a
  commenter other than the bot. If the commenter is not the owner and the
  collaborators cannot be fetched, the permission check logs the error and
  answers no, and the run ends with the permission notice. If the permission
  check answers yes and the comments cannot be fetched, the duplicate check
  logs the error and answers no, and the run goes on with the command.
\<close>

theorem failure_policies_asymmetric:
  assumes "payload_comment p = Some c" and "comment_body c = Some b" and "b \<noteq> []"
    and "payload_issue_number p = Some n" and "n \<noteq> 0"
    and "comment_user_login c \<noteq> botUsername"
  shows "(comment_user_login c \<noteq> repository_owner_login p \<and>
          repos_listCollaborators ok ''direct'' = Inl m \<longrightarrow>
            checkMaintainerOrBot ok p (comment_user_login c) =
              ([ConsoleLog (comment_user_login c), ListCollaborators ''direct'',
                LogError (''Failed to check maintainer status: '' @ m)], Inr False) \<and>
            fst (handlePRCommands ok p) =
              [ConsoleLog (comment_user_login c), ListCollaborators ''direct'',
               LogError (''Failed to check maintainer status: '' @ m),
               CreateComment (Some n)
                 (cross_mark @ '' @'' @ comment_user_login c @
                  '', you do not have permission to use this command. '' @
                  ''Only maintainers and the bot can use this command.'')]) \<and>
         (checkMaintainerOrBot ok p (comment_user_login c) = (es1, Inr True) \<and>
          issues_listComments ok n = Inl m \<longrightarrow>
            checkDuplicateCommand ok p (comment_user_login c) b =
              ([ListComments n,
                LogError (''Failed to check for duplicate command usage: '' @ m)], Inr False) \<and>
            handlePRCommands ok p =
              (es1 @ [ListComments n,
                      LogError (''Failed to check for duplicate command usage: '' @ m)] @
                 fst (executeCommand ok p n (comment_user_login c) b),
               snd (executeCommand ok p n (comment_user_login c) b)))"
proof (intro conjI impI; elim conjE)
  assume no: "comment_user_login c \<noteq> repository_owner_login p"
    and fail: "repos_listCollaborators ok ''direct'' = Inl m"
  show m: "checkMaintainerOrBot ok p (comment_user_login c) =
              ([ConsoleLog (comment_user_login c), ListCollaborators ''direct'',
                LogError (''Failed to check maintainer status: '' @ m)], Inr False)"
    using no fail assms(6) by (simp add: checkMaintainerOrBot_def step_simps)
  obtain es2 d where d: "checkDuplicateCommand ok p (comment_user_login c) b = (es2, Inr d)"
    using checkDuplicateCommand_total by blast
  show "fst (handlePRCommands ok p) =
              [ConsoleLog (comment_user_login c), ListCollaborators ''direct'',
               LogError (''Failed to check maintainer status: '' @ m),
               CreateComment (Some n)
                 (cross_mark @ '' @'' @ comment_user_login c @
                  '', you do not have permission to use this command. '' @
                  ''Only maintainers and the bot can use this command.'')]"
    using assms(4) by (simp add: handlePRCommands_checked [OF assms m d] step_simps)
next
  assume m: "checkMaintainerOrBot ok p (comment_user_login c) = (es1, Inr True)"
    and fail: "issues_listComments ok n = Inl m"
  show d: "checkDuplicateCommand ok p (comment_user_login c) b =
              ([ListComments n,
                LogError (''Failed to check for duplicate command usage: '' @ m)], Inr False)"
    using fail assms(4) by (simp add: checkDuplicateCommand_def step_simps)
  show "handlePRCommands ok p =
              (es1 @ [ListComments n,
                      LogError (''Failed to check for duplicate command usage: '' @ m)] @
                 fst (executeCommand ok p n (comment_user_login c) b),
               snd (executeCommand ok p n (comment_user_login c) b))"
    by (simp add: handlePRCommands_checked [OF assms m d])
qed

text \<open>
  \<open>bob\<close> comments \<^verbatim>\<open>/hold\<close>. When the collaborators cannot be fetched he gets the
  permission notice and no label is added; when the comments cannot be fetched
  the label is added.
\<close>

theorem failure_policies_asymmetric_witness:
  "handlePRCommands
       ((quiet_platform []) \<lparr>repos_listCollaborators := (\<lambda>_. Inl ''Timeout'')\<rparr>)
       (comment_event ''bob'' ''/hold'') =
     ([ConsoleLog ''bob'', ListCollaborators ''direct'',
       LogError ''Failed to check maintainer status: Timeout'',
       CreateComment (Some 7)
         (cross_mark @ '' @bob, you do not have permission to use this command. '' @
          ''Only maintainers and the bot can use this command.'')],
      Inr ()) \<and>
   handlePRCommands
       ((quiet_platform []) \<lparr>issues_listComments := (\<lambda>_. Inl ''Timeout'')\<rparr>)
       (comment_event ''bob'' ''/hold'') =
     ([ConsoleLog ''bob'', ListCollaborators ''direct'', ConsoleLogCollaborators [''bob''],
       ListComments 7, LogError ''Failed to check for duplicate command usage: Timeout'',
       AddLabels 7 [''hold''], LogInfo ''PR #7 has been placed on hold.''],
      Inr ())"
proof -
  let ?p = "comment_event ''bob'' ''/hold''"
  let ?c = "\<lparr>comment_body = Some ''/hold'', comment_user_login = ''bob''\<rparr>"
  let ?ok1 = "(quiet_platform []) \<lparr>repos_listCollaborators := (\<lambda>_. Inl ''Timeout'')\<rparr>"
  let ?ok2 = "(quiet_platform []) \<lparr>issues_listComments := (\<lambda>_. Inl ''Timeout'')\<rparr>"
  have h1: "payload_comment ?p = Some ?c" by (simp add: comment_event_def)
  have h2: "comment_body ?c = Some ''/hold''" by simp
  have h3: "''/hold'' \<noteq> []" by simp
  have h4: "payload_issue_number ?p = Some 7" by (simp add: comment_event_def)
  have h5: "(7::int) \<noteq> 0" by simp
  have h6: "comment_user_login ?c \<noteq> botUsername" by (simp add: botUsername_def)
  have closed: "fst (handlePRCommands ?ok1 ?p) =
     [ConsoleLog ''bob'', ListCollaborators ''direct'',
       LogError ''Failed to check maintainer status: Timeout'',
       CreateComment (Some 7)
         (cross_mark @ '' @bob, you do not have permission to use this command. '' @
          ''Only maintainers and the bot can use this command.'')]"
    using failure_policies_asymmetric [OF h1 h2 h3 h4 h5 h6, where ok = ?ok1 and m = "''Timeout''"]
    by (simp add: comment_event_def)
  have res: "snd (handlePRCommands ?ok1 ?p) = Inr ()"
    by (simp add: run_defs)
  have yes: "checkMaintainerOrBot ?ok2 ?p (comment_user_login ?c) =
      ([ConsoleLog ''bob'', ListCollaborators ''direct'', ConsoleLogCollaborators [''bob'']],
       Inr True)"
    by (simp add: run_defs)
  have hold: "holdPR ?ok2 ?p 7 =
      ([AddLabels 7 [''hold''], LogInfo ''PR #7 has been placed on hold.''], Inr ())"
    by (simp add: run_defs)
  have "open": "handlePRCommands ?ok2 ?p =
     ([ConsoleLog ''bob'', ListCollaborators ''direct'', ConsoleLogCollaborators [''bob''],
       ListComments 7, LogError ''Failed to check for duplicate command usage: Timeout'',
       AddLabels 7 [''hold''], LogInfo ''PR #7 has been placed on hold.''],
      Inr ())"
    using failure_policies_asymmetric [OF h1 h2 h3 h4 h5 h6, where ok = ?ok2 and m = "''Timeout''"] yes
    by (simp add: executeCommand_hold hold)
  from closed res "open" show ?thesis
    by (simp add: prod_eq_iff)
qed

section \<open>Duplicate commands\<close>

text \<open>
  Claim C8. The comments of the thread are fetched and the last of them is the
  triggering comment. Then the check answers yes exactly when a comment at an
  index below the last index has the same author and the same text; the two
  texts are compared as they are, character by character.
\<close>

theorem duplicate_iff_earlier_same:
  assumes "payload_issue_number p = Some n"
    and "issues_listComments ok n = Inr comments"
    and "comments \<noteq> []"
    and "last comments = \<lparr>user_login = commenter, body = commentBody\<rparr>"
  shows "checkDuplicateCommand ok p commenter commentBody =
           ([ListComments n],
            Inr (\<exists>i < length comments - 1.
                   user_login (comments ! i) = commenter \<and> body (comments ! i) = commentBody))"
proof -
  have "(\<exists>i < length comments.
           user_login (comments ! i) = commenter \<and> body (comments ! i) = commentBody \<and>
           int i \<noteq> int (length comments) - 1)
        \<longleftrightarrow> (\<exists>i < length comments - 1.
           user_login (comments ! i) = commenter \<and> body (comments ! i) = commentBody)"
    (is "?L \<longleftrightarrow> ?R")
  proof
    assume ?L
    then obtain i where i: "i < length comments" "int i \<noteq> int (length comments) - 1"
      and eq: "user_login (comments ! i) = commenter" "body (comments ! i) = commentBody"
      by blast
    from i have "i < length comments - 1" by linarith
    with eq show ?R by blast
  next
    assume ?R
    then obtain i where i: "i < length comments - 1"
      and eq: "user_login (comments ! i) = commenter" "body (comments ! i) = commentBody"
      by blast
    from i have "i < length comments" "int i \<noteq> int (length comments) - 1" by linarith+
    with eq show ?L by blast
  qed
  with assms(1,2) show ?thesis
    by (simp add: checkDuplicateCommand_def step_simps some_idx_iff)
qed

text \<open>
  \<open>bob\<close> wrote \<^verbatim>\<open>/approve\<close>, then \<^verbatim>\<open>/Approve\<close>, and now \<^verbatim>\<open>/approve\<close> again: the first
  comment makes the third a duplicate. Had he written only \<^verbatim>\<open>/Approve\<close> before,
  it would not be one.
\<close>

theorem duplicate_iff_earlier_same_witness:
  "checkDuplicateCommand
     (quiet_platform [\<lparr>user_login = ''bob'', body = ''/approve''\<rparr>,
                      \<lparr>user_login = ''bob'', body = ''/Approve''\<rparr>,
                      \<lparr>user_login = ''bob'', body = ''/approve''\<rparr>])
     (comment_event ''bob'' ''/approve'') ''bob'' ''/approve'' =
     ([ListComments 7], Inr True) \<and>
   checkDuplicateCommand
     (quiet_platform [\<lparr>user_login = ''bob'', body = ''/Approve''\<rparr>,
                      \<lparr>user_login = ''bob'', body = ''/approve''\<rparr>])
     (comment_event ''bob'' ''/approve'') ''bob'' ''/approve'' =
     ([ListComments 7], Inr False)"
proof -
  let ?thread = "[\<lparr>user_login = ''bob'', body = ''/approve''\<rparr>,
                  \<lparr>user_login = ''bob'', body = ''/Approve''\<rparr>,
                  \<lparr>user_login = ''bob'', body = ''/approve''\<rparr>]"
  let ?other = "[\<lparr>user_login = ''bob'', body = ''/Approve''\<rparr>,
                 \<lparr>user_login = ''bob'', body = ''/approve''\<rparr>]"
  have h1: "payload_issue_number (comment_event ''bob'' ''/approve'') = Some 7"
    by (simp add: comment_event_def)
  have h2: "issues_listComments (quiet_platform ?thread) 7 = Inr ?thread"
    by (simp add: quiet_platform_def)
  have h3: "?thread \<noteq> []" by simp
  have h4: "last ?thread = \<lparr>user_login = ''bob'', body = ''/approve''\<rparr>" by simp
  have earlier: "\<exists>i < length ?thread - 1.
      user_login (?thread ! i) = ''bob'' \<and> body (?thread ! i) = ''/approve''"
    by (rule exI [of _ 0]) simp
  have k2: "issues_listComments (quiet_platform ?other) 7 = Inr ?other"
    by (simp add: quiet_platform_def)
  have k3: "?other \<noteq> []" by simp
  have k4: "last ?other = \<lparr>user_login = ''bob'', body = ''/approve''\<rparr>" by simp
  have none: "\<not> (\<exists>i < length ?other - 1.
      user_login (?other ! i) = ''bob'' \<and> body (?other ! i) = ''/approve'')"
    by simp
  from duplicate_iff_earlier_same [OF h1 h2 h3 h4] earlier
    duplicate_iff_earlier_same [OF h1 k2 k3 k4] none
  show ?thesis by simp
qed

section \<open>Removing the hold\<close>

text \<open>
  Claim C9. \<^verbatim>\<open>unholdPR\<close> sends the removal of the \<^verbatim>\<open>hold\<close> label and logs one line,
  an error line when the removal fails (as it does when the label is absent) and
  an information line otherwise; it posts no comment and always returns. For a
  permitted, non-duplicate \<^verbatim>\<open>/unhold\<close> the whole run returns, and the removal
  is its only write.
\<close>

theorem unhold_logged_only:
  "unholdPR ok p n =
     ([RemoveLabel n ''hold'',
       (case issues_removeLabel ok n ''hold'' of
          None \<Rightarrow> LogInfo (''PR #'' @ number_text n @
                      '' has been unheld and is ready for approval.'')
        | Some m \<Rightarrow> LogError (''Failed to remove 'hold' label from PR #'' @
                      number_text n @ '': '' @ m))],
      Inr ()) \<and>
   (payload_comment p = Some c \<and> comment_body c = Some ''/unhold'' \<and>
    payload_issue_number p = Some n \<and> n \<noteq> 0 \<and> comment_user_login c \<noteq> botUsername \<and>
    checkMaintainerOrBot ok p (comment_user_login c) = (es1, Inr True) \<and>
    checkDuplicateCommand ok p (comment_user_login c) ''/unhold'' = (es2, Inr False) \<longrightarrow>
      snd (handlePRCommands ok p) = Inr () \<and>
      filter mutation (fst (handlePRCommands ok p)) = [RemoveLabel n ''hold''])"
proof (intro conjI impI; (elim conjE)?)
  show u: "unholdPR ok p n =
     ([RemoveLabel n ''hold'',
       (case issues_removeLabel ok n ''hold'' of
          None \<Rightarrow> LogInfo (''PR #'' @ number_text n @
                      '' has been unheld and is ready for approval.'')
        | Some m \<Rightarrow> LogError (''Failed to remove 'hold' label from PR #'' @
                      number_text n @ '': '' @ m))],
      Inr ())"
    by (simp add: unholdPR_def step_simps split: option.splits)
  assume a: "payload_comment p = Some c" "comment_body c = Some ''/unhold''"
    "payload_issue_number p = Some n" "n \<noteq> 0" "comment_user_login c \<noteq> botUsername"
    and m: "checkMaintainerOrBot ok p (comment_user_login c) = (es1, Inr True)"
    and d: "checkDuplicateCommand ok p (comment_user_login c) ''/unhold'' = (es2, Inr False)"
  have run: "handlePRCommands ok p =
           (es1 @ es2 @ fst (unholdPR ok p n), snd (unholdPR ok p n))"
    using handlePRCommands_checked [OF a(1,2) _ a(3,4,5) m d]
    by (simp add: executeCommand_unhold)
  have q1: "filter mutation es1 = []"
    using checkMaintainerOrBot_quiet [of _ ok p "comment_user_login c"] m
    by (intro quiet_filter) simp
  have q2: "filter mutation es2 = []"
    using checkDuplicateCommand_quiet [of _ ok p "comment_user_login c" "''/unhold''"] d
    by (intro quiet_filter) simp
  show "snd (handlePRCommands ok p) = Inr ()"
    by (simp add: run u)
  show "filter mutation (fst (handlePRCommands ok p)) = [RemoveLabel n ''hold'']"
    by (simp add: run u q1 q2 split: option.splits)
qed

text \<open>
  The owner \<open>alice\<close> comments \<^verbatim>\<open>/unhold\<close> on a pull request without the label,
  and the platform rejects the removal.
\<close>

theorem unhold_logged_only_witness:
  "unholdPR
     ((quiet_platform [\<lparr>user_login = ''alice'', body = ''/unhold''\<rparr>])
        \<lparr>issues_removeLabel := (\<lambda>_ _. Some ''Label does not exist'')\<rparr>)
     (comment_event ''alice'' ''/unhold'') 7 =
     ([RemoveLabel 7 ''hold'',
       LogError ''Failed to remove 'hold' label from PR #7: Label does not exist''],
      Inr ()) \<and>
   snd (handlePRCommands
     ((quiet_platform [\<lparr>user_login = ''alice'', body = ''/unhold''\<rparr>])
        \<lparr>issues_removeLabel := (\<lambda>_ _. Some ''Label does not exist'')\<rparr>)
     (comment_event ''alice'' ''/unhold'')) = Inr () \<and>
   filter mutation (fst (handlePRCommands
     ((quiet_platform [\<lparr>user_login = ''alice'', body = ''/unhold''\<rparr>])
        \<lparr>issues_removeLabel := (\<lambda>_ _. Some ''Label does not exist'')\<rparr>)
     (comment_event ''alice'' ''/unhold''))) = [RemoveLabel 7 ''hold'']"
proof -
  let ?ok = "(quiet_platform [\<lparr>user_login = ''alice'', body = ''/unhold''\<rparr>])
        \<lparr>issues_removeLabel := (\<lambda>_ _. Some ''Label does not exist'')\<rparr>"
  let ?p = "comment_event ''alice'' ''/unhold''"
  let ?c = "\<lparr>comment_body = Some ''/unhold'', comment_user_login = ''alice''\<rparr>"
  have h: "payload_comment ?p = Some ?c \<and> comment_body ?c = Some ''/unhold'' \<and>
    payload_issue_number ?p = Some 7 \<and> (7::int) \<noteq> 0 \<and> comment_user_login ?c \<noteq> botUsername \<and>
    checkMaintainerOrBot ?ok ?p (comment_user_login ?c) = ([ConsoleLog ''alice''], Inr True) \<and>
    checkDuplicateCommand ?ok ?p (comment_user_login ?c) ''/unhold'' =
      ([ListComments 7], Inr False)"
    by (simp add: run_defs)
  from unhold_logged_only
    [of ?ok ?p 7 ?c "[ConsoleLog ''alice'']" "[ListComments 7]"] h
  show ?thesis
    by (simp add: number_text_def quiet_platform_def)
qed

section \<open>The threshold of one\<close>

text \<open>
  Claim C10. The threshold is the constant 1 and the count is a length plus
  one, so the count is never below the threshold. No run of the approve handler
  posts the comment that starts with \<^verbatim>\<open>This PR requires at least\<close>, and every run
  in which the platform accepts the review goes on to request the merge.
\<close>

theorem below_threshold_unreachable:
  "MIN_REQUIRED_APPROVALS \<le> approvalCount rs \<and>
   (\<forall>e \<in> set (fst (approvePR ok p n u)).
      \<forall>i text. e = CreateComment i text \<longrightarrow> \<not> prefix ''This PR requires at least '' text) \<and>
   (\<forall>a b. CreateReview n a b \<in> set (fst (approvePR ok p n u)) \<and>
          pulls_createReview ok n a b = None \<longrightarrow>
          Merge n \<in> set (fst (approvePR ok p n u)))"
proof (intro conjI)
  show "MIN_REQUIRED_APPROVALS \<le> approvalCount rs"
    by (simp add: MIN_REQUIRED_APPROVALS_def approvalCount_def)
next
  show "\<forall>e \<in> set (fst (approvePR ok p n u)).
      \<forall>i text. e = CreateComment i text \<longrightarrow> \<not> prefix ''This PR requires at least '' text"
  proof (cases "pulls_get ok n")
    case (Inl m)
    then show ?thesis by (simp add: approvePR_unfetched)
  next
    case pr: (Inr pr)
    show ?thesis
    proof (cases "pulls_listReviews ok n")
      case (Inl m)
      with pr show ?thesis by (simp add: approvePR_unfetched)
    next
      case (Inr reviews)
      show ?thesis
        by (auto simp: approvePR_fetched [OF pr Inr] step_simps cross_mark_def check_mark_def
            split: option.splits)
    qed
  qed
next
  show "\<forall>a b. CreateReview n a b \<in> set (fst (approvePR ok p n u)) \<and>
          pulls_createReview ok n a b = None \<longrightarrow>
          Merge n \<in> set (fst (approvePR ok p n u))"
  proof (cases "pulls_get ok n")
    case (Inl m)
    then show ?thesis by (simp add: approvePR_unfetched)
  next
    case pr: (Inr pr)
    show ?thesis
    proof (cases "pulls_listReviews ok n")
      case (Inl m)
      with pr show ?thesis by (simp add: approvePR_unfetched)
    next
      case (Inr reviews)
      show ?thesis
        by (auto simp: approvePR_fetched [OF pr Inr] step_simps split: option.splits)
    qed
  qed
qed

text \<open>
  Four earlier approvals or none: the review of \<open>bob\<close> is accepted and the merge
  is requested.
\<close>

theorem below_threshold_unreachable_witness:
  "CreateReview 7 ''APPROVE'' ''Approved via /approve command.''
     \<in> set (fst (approvePR (quiet_platform []) (comment_event ''bob'' ''/approve'') 7 ''bob'')) \<and>
   Merge 7
     \<in> set (fst (approvePR (quiet_platform []) (comment_event ''bob'' ''/approve'') 7 ''bob''))"
proof -
  have sent: "CreateReview 7 ''APPROVE'' ''Approved via /approve command.''
     \<in> set (fst (approvePR (quiet_platform []) (comment_event ''bob'' ''/approve'') 7 ''bob''))"
    by (simp add: run_defs)
  have accepted: "pulls_createReview (quiet_platform []) 7 ''APPROVE''
      ''Approved via /approve command.'' = None"
    by (simp add: quiet_platform_def)
  from below_threshold_unreachable
    [of "[]" "quiet_platform []" "comment_event ''bob'' ''/approve''" 7 "''bob''"]
    sent accepted
  show ?thesis by blast
qed

end
